theory Spec2Isabelle
  imports Main "HOL-Library.AList"
begin

section \<open>JavaScript values and plain objects\<close>

text \<open>
  The reducer of \<^verbatim>\<open>src/index.tsx\<close> builds its states with object literals, spreads and
  computed keys, and reads them with property access and truthiness tests. The values it
  handles are modelled by \<open>jsval\<close>. A plain object is the list of its own enumerable
  properties in insertion order; \<open>JBuiltin n\<close> is the built-in value that every plain
  object inherits from \<^verbatim>\<open>Object.prototype\<close> under the name \<open>n\<close>.
\<close>

datatype jsval =
    JUndefined
  | JNull
  | JBool bool
  | JNum int
  | JStr string
  | JBuiltin string
  | JObj "(string \<times> jsval) list"

type_synonym obj = "(string \<times> jsval) list"

text \<open>The truthiness test of \<^verbatim>\<open>c ? a : b\<close>.\<close>

fun truthy :: "jsval \<Rightarrow> bool" where
  "truthy JUndefined = False"
| "truthy JNull = False"
| "truthy (JBool b) = b"
| "truthy (JNum n) = (n \<noteq> 0)"
| "truthy (JStr s) = (s \<noteq> [])"
| "truthy (JBuiltin n) = True"
| "truthy (JObj fs) = True"

text \<open>Decimal numerals, as JavaScript writes an integer when it becomes a property key.\<close>

definition digit :: "nat \<Rightarrow> char" where
  "digit d = char_of (48 + d)"

function dec :: "nat \<Rightarrow> string" where
  "dec n = (if n < 10 then [digit n] else dec (n div 10) @ [digit (n mod 10)])"
  by pat_completeness auto
termination
  by (relation "measure (\<lambda>n. n)") auto

declare dec.simps [simp del]

text \<open>
  The conversion of a computed key \<^verbatim>\<open>[e]\<close> and of an index \<^verbatim>\<open>o[e]\<close> to a property
  name. Identifiers are strings wherever the interface declares them; the other primitive
  values are converted as the language does (a number is an integer that JavaScript
  writes with all its digits, below \<open>10^21\<close> in magnitude), a plain object by its default
  conversion and a built-in function as V8 prints it.
\<close>

fun prop_key :: "jsval \<Rightarrow> string" where
  "prop_key JUndefined = ''undefined''"
| "prop_key JNull = ''null''"
| "prop_key (JBool b) = (if b then ''true'' else ''false'')"
| "prop_key (JNum n) = (if n < 0 then ''-'' @ dec (nat (- n)) else dec (nat n))"
| "prop_key (JStr s) = s"
| "prop_key (JBuiltin n) =
     (if n = ''__proto__'' then ''[object Object]''
      else ''function '' @ (if n = ''constructor'' then ''Object'' else n) @ ''() { [native code] }'')"
| "prop_key (JObj fs) = ''[object Object]''"

text \<open>The names that a plain object inherits from \<^verbatim>\<open>Object.prototype\<close>.\<close>

definition Object_prototype_names :: "string list" where
  "Object_prototype_names =
     [''constructor'', ''hasOwnProperty'', ''isPrototypeOf'', ''propertyIsEnumerable'',
      ''toLocaleString'', ''toString'', ''valueOf'', ''__proto__'',
      ''__defineGetter__'', ''__defineSetter__'', ''__lookupGetter__'', ''__lookupSetter__'']"

text \<open>
  Property read \<^verbatim>\<open>o[k]\<close> on a plain object: the own property when there is one, else
  what the prototype gives, else \<^verbatim>\<open>undefined\<close>.
\<close>

definition obj_get :: "obj \<Rightarrow> string \<Rightarrow> jsval" where
  "obj_get fs k =
     (case map_of fs k of
        Some v \<Rightarrow> v
      | None \<Rightarrow> if k \<in> set Object_prototype_names then JBuiltin k else JUndefined)"

text \<open>
  The own enumerable properties that a spread \<^verbatim>\<open>{...v}\<close> copies: those of an object,
  the indexed characters of a string, and none for any other value.
\<close>

fun spread :: "jsval \<Rightarrow> obj" where
  "spread (JObj fs) = fs"
| "spread (JStr s) = zip (map dec [0..<length s]) (map (\<lambda>c. JStr [c]) s)"
| "spread JUndefined = []"
| "spread JNull = []"
| "spread (JBool b) = []"
| "spread (JNum n) = []"
| "spread (JBuiltin n) = []"

text \<open>
  A property \<^verbatim>\<open>k: v\<close> that follows a spread in an object literal replaces the value of
  an existing key in place and is appended otherwise.
\<close>

definition set_prop :: "string \<Rightarrow> jsval \<Rightarrow> obj \<Rightarrow> obj" where
  "set_prop k v fs = AList.update k v fs"

text \<open>
  The order in which \<^verbatim>\<open>Object.values\<close> visits the own properties: array indices in
  ascending numeric order, then the other names in insertion order.
\<close>

definition is_digit :: "char \<Rightarrow> bool" where
  "is_digit c = ((48::nat) \<le> of_char c \<and> of_char c \<le> (57::nat))"

definition nat_of_dec :: "string \<Rightarrow> nat" where
  "nat_of_dec s = foldl (\<lambda>n c. 10 * n + (of_char c - 48)) (0::nat) s"

definition is_array_index :: "string \<Rightarrow> bool" where
  "is_array_index k =
     (k \<noteq> [] \<and> list_all is_digit k \<and> (k = ''0'' \<or> hd k \<noteq> CHR ''0'')
      \<and> nat_of_dec k < 4294967295)"

definition Object_values :: "obj \<Rightarrow> jsval list" where
  "Object_values fs =
     map snd (sort_key (\<lambda>p. nat_of_dec (fst p)) (filter (\<lambda>p. is_array_index (fst p)) fs)
              @ filter (\<lambda>p. \<not> is_array_index (fst p)) fs)"

section \<open>The state and the events\<close>

datatype AsyncAction = A_get | A_list | A_update | A_remove | A_create

text \<open>
  The message of a rejection is what \<^verbatim>\<open>error.message\<close> gives for the reason of the
  rejected future. The source declares it a string, but nothing checks the reason of a
  future: the message is a \<open>jsval\<close>, and so is the error that the state keeps.
\<close>

record ActionError =
  ae_id :: string
  ae_message :: jsval

text \<open>
  The type parameter \<open>T\<close> of the source is instantiated with plain objects: a resource is
  an \<open>obj\<close>, and its identifier is whatever its property \<^verbatim>\<open>id\<close> holds.
\<close>

datatype Action =
    GET_RESOURCE_STARTED string
  | GET_RESOURCE_RESOLVED obj
  | GET_RESOURCE_REJECTED ActionError
  | LIST_RESOURCE_STARTED
  | LIST_RESOURCE_RESOLVED "obj list"
  | LIST_RESOURCE_REJECTED jsval
  | UPDATE_RESOURCE_STARTED string
  | UPDATE_RESOURCE_RESOLVED obj
  | UPDATE_RESOURCE_REJECTED ActionError
  | CREATE_RESOURCE_STARTED
  | CREATE_RESOURCE_RESOLVED obj
  | CREATE_RESOURCE_REJECTED jsval
  | REMOVE_RESOURCE_STARTED string
  | REMOVE_RESOURCE_RESOLVED string
  | REMOVE_RESOURCE_REJECTED ActionError
  | SELECT_RESOURCE string

record ResourceManager =
  list :: obj
  action :: "AsyncAction option"
  error :: jsval
  selected :: "string option"

definition EMPTY_RESOURCE_MANAGER :: ResourceManager where
  "EMPTY_RESOURCE_MANAGER = \<lparr>list = [], action = None, error = JNull, selected = None\<rparr>"

text \<open>
  The callback that \<open>LIST_RESOURCE_RESOLVED\<close> passes to \<^verbatim>\<open>reduce\<close>: a resource whose
  identifier reads as truthy in the accumulator is skipped, any other is added.
\<close>

definition add_resource :: "obj \<Rightarrow> obj \<Rightarrow> obj" where
  "add_resource acc resource =
     (if truthy (obj_get acc (prop_key (obj_get resource ''id''))) then acc
      else set_prop (prop_key (obj_get resource ''id''))
             (JObj (set_prop ''meta'' (JObj [(''action'', JNull), (''error'', JNull)])
               (spread (JObj resource))))
             acc)"

text \<open>
  The transition function. Each clause is one \<^verbatim>\<open>case\<close> of the \<^verbatim>\<open>switch\<close>; the record
  update is the spread \<^verbatim>\<open>{...state, ...}\<close>. \<open>LIST_RESOURCE_REJECTED\<close> has no case of its
  own in the source and so takes the \<^verbatim>\<open>default\<close> branch.
\<close>

fun resourceManagerReducer :: "ResourceManager \<Rightarrow> Action \<Rightarrow> ResourceManager" where
  "resourceManagerReducer state (GET_RESOURCE_STARTED payload) =
     state\<lparr>error := JNull, action := Some A_get,
       list := set_prop payload
         (JObj (set_prop ''meta'' (JObj [(''action'', JStr ''get''), (''error'', JNull)])
           (set_prop ''id'' (JStr payload)
             (spread (obj_get (list state) payload)))))
         (list state)\<rparr>"
| "resourceManagerReducer state (UPDATE_RESOURCE_STARTED payload) =
     state\<lparr>error := JNull, action := Some A_update,
       list := set_prop payload
         (JObj (set_prop ''meta'' (JObj [(''action'', JStr ''update''), (''error'', JNull)])
           (spread (obj_get (list state) payload))))
         (list state)\<rparr>"
| "resourceManagerReducer state (REMOVE_RESOURCE_STARTED payload) =
     state\<lparr>error := JNull, action := Some A_remove,
       list := set_prop payload
         (JObj (set_prop ''meta'' (JObj [(''action'', JStr ''remove''), (''error'', JNull)])
           (spread (obj_get (list state) payload))))
         (list state)\<rparr>"
| "resourceManagerReducer state CREATE_RESOURCE_STARTED =
     state\<lparr>error := JNull, action := Some A_create\<rparr>"
| "resourceManagerReducer state LIST_RESOURCE_STARTED =
     state\<lparr>error := JNull, action := Some A_list\<rparr>"
| "resourceManagerReducer state (GET_RESOURCE_RESOLVED payload) =
     state\<lparr>error := JNull, action := None,
       list := set_prop (prop_key (obj_get payload ''id''))
         (JObj (set_prop ''meta'' (JObj [(''action'', JNull), (''error'', JNull)])
           (spread (JObj payload))))
         (list state)\<rparr>"
| "resourceManagerReducer state (UPDATE_RESOURCE_RESOLVED payload) =
     state\<lparr>error := JNull, action := None,
       list := set_prop (prop_key (obj_get payload ''id''))
         (JObj (set_prop ''meta'' (JObj [(''action'', JNull), (''error'', JNull)])
           (spread (JObj payload))))
         (list state)\<rparr>"
| "resourceManagerReducer state (CREATE_RESOURCE_RESOLVED payload) =
     state\<lparr>error := JNull, action := None,
       list := set_prop (prop_key (obj_get payload ''id''))
         (JObj (set_prop ''meta'' (JObj [(''action'', JNull), (''error'', JNull)])
           (spread (JObj payload))))
         (list state)\<rparr>"
| "resourceManagerReducer state (LIST_RESOURCE_RESOLVED payload) =
     state\<lparr>error := JNull, action := None,
       list := foldl add_resource [] payload\<rparr>"
| "resourceManagerReducer state (REMOVE_RESOURCE_RESOLVED payload) =
     state\<lparr>selected := (if selected state = Some payload then None else selected state),
       error := JNull, action := None,
       list := AList.delete payload (list state)\<rparr>"
| "resourceManagerReducer state (GET_RESOURCE_REJECTED payload) =
     state\<lparr>error := ae_message payload, action := None,
       list := set_prop (ae_id payload)
         (JObj (set_prop ''meta''
                 (JObj [(''action'', JNull), (''error'', ae_message payload)])
           (spread (obj_get (list state) (ae_id payload)))))
         (list state)\<rparr>"
| "resourceManagerReducer state (UPDATE_RESOURCE_REJECTED payload) =
     state\<lparr>error := ae_message payload, action := None,
       list := set_prop (ae_id payload)
         (JObj (set_prop ''meta''
                 (JObj [(''action'', JNull), (''error'', ae_message payload)])
           (spread (obj_get (list state) (ae_id payload)))))
         (list state)\<rparr>"
| "resourceManagerReducer state (REMOVE_RESOURCE_REJECTED payload) =
     state\<lparr>error := ae_message payload, action := None,
       list := set_prop (ae_id payload)
         (JObj (set_prop ''meta''
                 (JObj [(''action'', JNull), (''error'', ae_message payload)])
           (spread (obj_get (list state) (ae_id payload)))))
         (list state)\<rparr>"
| "resourceManagerReducer state (CREATE_RESOURCE_REJECTED payload) =
     state\<lparr>error := payload, action := None\<rparr>"
| "resourceManagerReducer state (SELECT_RESOURCE payload) =
     state\<lparr>selected := Some payload\<rparr>"
| "resourceManagerReducer state (LIST_RESOURCE_REJECTED payload) = state"

section \<open>The read projection\<close>

text \<open>
  The object that \<^verbatim>\<open>useResource\<close> hands to its caller, computed from the state. The
  test \<^verbatim>\<open>state.selected ? ... : null\<close> is false for \<^verbatim>\<open>null\<close> and for the empty string.
\<close>

record State =
  list_out :: "jsval list"
  selected_out :: jsval
  action_out :: "AsyncAction option"
  error_out :: jsval

definition manager :: "ResourceManager \<Rightarrow> State" where
  "manager state =
     \<lparr>list_out = Object_values (list state),
      selected_out =
        (case selected state of
           None \<Rightarrow> JNull
         | Some s \<Rightarrow> if s \<noteq> [] then obj_get (list state) s else JNull),
      action_out = action state,
      error_out = error state\<rparr>"

section \<open>The orchestrator\<close>

text \<open>
  \<^verbatim>\<open>useReducer\<close> applies the reducer to the dispatched events in the order of their
  dispatch. A \<open>world\<close> is the state so obtained together with the history of what has
  happened: the events dispatched and the settlements of supplied futures.
\<close>

datatype occurrence = Dispatched Action | FutureSettled

record world =
  store :: ResourceManager
  trace :: "occurrence list"

definition dispatch :: "Action \<Rightarrow> world \<Rightarrow> world" where
  "dispatch a w =
     w\<lparr>store := resourceManagerReducer (store w) a, trace := trace w @ [Dispatched a]\<rparr>"

text \<open>
  What a rejection handler of the source throws, and so what the returned promise is
  rejected with: the value of \<^verbatim>\<open>error.message\<close>, or the \<^verbatim>\<open>TypeError\<close> that the read
  itself raises.
\<close>

datatype thrown = Value jsval | TypeError

text \<open>
  A promise either never settles, or settles at some moment; \<open>Settles run\<close> gives, for
  the world \<open>w\<close> in which its reactions run, the outcome and the world that the reactions
  attached so far leave behind. A handler returns or throws.
\<close>

datatype ('a, 'e) settled = Fulfilled 'a | Rejected 'e

datatype ('a, 'e) completion = Return 'a | Throw 'e

datatype ('a, 'e) promise =
    Settles "world \<Rightarrow> ('a, 'e) settled \<times> world"
  | NeverSettles

text \<open>\<^verbatim>\<open>p.then(f)\<close>: \<open>f\<close> runs when \<open>p\<close> is fulfilled; a rejection passes through.\<close>

definition then_p ::
  "('a, 'e) promise \<Rightarrow> ('a \<Rightarrow> world \<Rightarrow> ('b, 'e) completion \<times> world) \<Rightarrow> ('b, 'e) promise" where
  "then_p p f =
     (case p of
        NeverSettles \<Rightarrow> NeverSettles
      | Settles run \<Rightarrow> Settles (\<lambda>w.
          case run w of
            (Fulfilled v, w') \<Rightarrow>
              (case f v w' of
                 (Return x, w'') \<Rightarrow> (Fulfilled x, w'')
               | (Throw e, w'') \<Rightarrow> (Rejected e, w''))
          | (Rejected r, w') \<Rightarrow> (Rejected r, w')))"

text \<open>\<^verbatim>\<open>p.catch(g)\<close>: \<open>g\<close> runs when \<open>p\<close> is rejected; a value passes through.\<close>

definition catch_p ::
  "('a, 'e) promise \<Rightarrow> ('e \<Rightarrow> world \<Rightarrow> ('a, 'f) completion \<times> world) \<Rightarrow> ('a, 'f) promise" where
  "catch_p p g =
     (case p of
        NeverSettles \<Rightarrow> NeverSettles
      | Settles run \<Rightarrow> Settles (\<lambda>w.
          case run w of
            (Fulfilled v, w') \<Rightarrow> (Fulfilled v, w')
          | (Rejected r, w') \<Rightarrow>
              (case g r w' of
                 (Return x, w'') \<Rightarrow> (Fulfilled x, w'')
               | (Throw e, w'') \<Rightarrow> (Rejected e, w''))))"

text \<open>
  The read \<^verbatim>\<open>error.message\<close> of the rejection handlers. The source annotates the
  parameter as \<^verbatim>\<open>error: Error\<close>, but the reason of a rejected future is any value:
  reading a property of \<^verbatim>\<open>null\<close> or \<^verbatim>\<open>undefined\<close> throws a \<^verbatim>\<open>TypeError\<close>, an object
  (an \<^verbatim>\<open>Error\<close> among them) gives its property, and no other value has a property of
  that name.
\<close>

fun message_of :: "jsval \<Rightarrow> (jsval, thrown) completion" where
  "message_of JUndefined = Throw TypeError"
| "message_of JNull = Throw TypeError"
| "message_of (JObj fs) = Return (obj_get fs ''message'')"
| "message_of (JStr s) = Return JUndefined"
| "message_of (JBool b) = Return JUndefined"
| "message_of (JNum n) = Return JUndefined"
| "message_of (JBuiltin n) = Return JUndefined"

text \<open>
  The five asynchronous verbs and \<^verbatim>\<open>select\<close>. Each returns the promise it hands back and
  the world at the end of the synchronous call. In a rejection handler the argument of
  \<^verbatim>\<open>dispatch\<close> is evaluated first: when \<^verbatim>\<open>error.message\<close> throws, nothing is dispatched and
  the handler ends with that exception; otherwise the event is dispatched and the message
  is thrown.
\<close>

definition handleGet ::
  "string \<Rightarrow> (obj, jsval) promise \<Rightarrow> world \<Rightarrow> (obj, thrown) promise \<times> world" where
  "handleGet i promise w =
     (let w1 = dispatch (GET_RESOURCE_STARTED i) w in
      (catch_p
         (then_p promise
            (\<lambda>resource w. (Return resource, dispatch (GET_RESOURCE_RESOLVED resource) w)))
         (\<lambda>error w.
            case message_of error of
              Throw t \<Rightarrow> (Throw t, w)
            | Return m \<Rightarrow>
                (Throw (Value m),
                 dispatch (GET_RESOURCE_REJECTED \<lparr>ae_id = i, ae_message = m\<rparr>) w)),
       w1))"

definition handleList ::
  "(obj list, jsval) promise \<Rightarrow> world \<Rightarrow> (obj list, thrown) promise \<times> world" where
  "handleList promise w =
     (let w1 = dispatch LIST_RESOURCE_STARTED w in
      (catch_p
         (then_p promise
            (\<lambda>l w. (Return l, dispatch (LIST_RESOURCE_RESOLVED l) w)))
         (\<lambda>error w.
            case message_of error of
              Throw t \<Rightarrow> (Throw t, w)
            | Return m \<Rightarrow> (Throw (Value m), dispatch (LIST_RESOURCE_REJECTED m) w)),
       w1))"

definition handleUpdate ::
  "string \<Rightarrow> (obj, jsval) promise \<Rightarrow> world \<Rightarrow> (obj, thrown) promise \<times> world" where
  "handleUpdate i promise w =
     (let w1 = dispatch (UPDATE_RESOURCE_STARTED i) w in
      (catch_p
         (then_p promise
            (\<lambda>resource w. (Return resource, dispatch (UPDATE_RESOURCE_RESOLVED resource) w)))
         (\<lambda>error w.
            case message_of error of
              Throw t \<Rightarrow> (Throw t, w)
            | Return m \<Rightarrow>
                (Throw (Value m),
                 dispatch (UPDATE_RESOURCE_REJECTED \<lparr>ae_id = i, ae_message = m\<rparr>) w)),
       w1))"

definition handleCreate ::
  "(obj, jsval) promise \<Rightarrow> world \<Rightarrow> (obj, thrown) promise \<times> world" where
  "handleCreate promise w =
     (let w1 = dispatch CREATE_RESOURCE_STARTED w in
      (catch_p
         (then_p promise
            (\<lambda>resource w. (Return resource, dispatch (CREATE_RESOURCE_RESOLVED resource) w)))
         (\<lambda>error w.
            case message_of error of
              Throw t \<Rightarrow> (Throw t, w)
            | Return m \<Rightarrow> (Throw (Value m), dispatch (CREATE_RESOURCE_REJECTED m) w)),
       w1))"

definition handleRemove ::
  "string \<Rightarrow> (obj, jsval) promise \<Rightarrow> world \<Rightarrow> (string, thrown) promise \<times> world" where
  "handleRemove i promise w =
     (let w1 = dispatch (REMOVE_RESOURCE_STARTED i) w in
      (catch_p
         (then_p promise
            (\<lambda>_ w. (Return i, dispatch (REMOVE_RESOURCE_RESOLVED i) w)))
         (\<lambda>error w.
            case message_of error of
              Throw t \<Rightarrow> (Throw t, w)
            | Return m \<Rightarrow>
                (Throw (Value m),
                 dispatch (REMOVE_RESOURCE_REJECTED \<lparr>ae_id = i, ae_message = m\<rparr>) w)),
       w1))"

definition handleSelect :: "string \<Rightarrow> world \<Rightarrow> world" where
  "handleSelect i w = dispatch (SELECT_RESOURCE i) w"

text \<open>
  The future that a caller supplies. It has settled before the verb is called, or it
  settles after the call, or it never settles. The reactions of a promise run after the
  synchronous code that attached them, also when the promise had settled already. A
  settlement after the call is written to the history at the moment the reactions run;
  a settlement before the call is in the history when the call begins.
\<close>

datatype timing = BeforeCall | AfterCall

datatype ('a, 'e) fate = Settled timing "('a, 'e) settled" | Never

fun supplied :: "('a, 'e) fate \<Rightarrow> ('a, 'e) promise" where
  "supplied Never = NeverSettles"
| "supplied (Settled BeforeCall r) = Settles (\<lambda>w. (r, w))"
| "supplied (Settled AfterCall r) =
     Settles (\<lambda>w. (r, w\<lparr>trace := trace w @ [FutureSettled]\<rparr>))"

fun settled_before :: "('a, 'e) fate \<Rightarrow> bool" where
  "settled_before (Settled BeforeCall r) = True"
| "settled_before (Settled AfterCall r) = False"
| "settled_before Never = False"

text \<open>
  One invocation of a verb on a future of the given fate, from the world \<open>w\<close>: the
  settlement if it comes before the call, the synchronous call, then the events
  \<open>between\<close> that other callers dispatch while the reactions are pending, then the
  reactions, if the future settles at all. The result is the outcome of the returned
  promise (\<open>None\<close> while it is pending for ever) and the final world.
\<close>

definition invocation ::
  "(('a, 'e) promise \<Rightarrow> world \<Rightarrow> ('b, 'f) promise \<times> world) \<Rightarrow> ('a, 'e) fate
     \<Rightarrow> Action list \<Rightarrow> world \<Rightarrow> ('b, 'f) settled option \<times> world" where
  "invocation verb fate between w =
     (let w0 = (if settled_before fate then w\<lparr>trace := trace w @ [FutureSettled]\<rparr> else w)
      in case verb (supplied fate) w0 of
        (p, w1) \<Rightarrow>
          (let w2 = foldl (\<lambda>w a. dispatch a w) w1 between in
           case p of
             NeverSettles \<Rightarrow> (None, w2)
           | Settles run \<Rightarrow> (case run w2 of (r, w3) \<Rightarrow> (Some r, w3))))"

section \<open>Properties of objects and of the list rebuild\<close>

lemma map_of_set_prop: "map_of (set_prop k v fs) = (map_of fs)(k \<mapsto> v)"
  by (simp add: set_prop_def update_conv')

lemma add_resource_other:
  "prop_key (obj_get r ''id'') \<noteq> k \<Longrightarrow> map_of (add_resource acc r) k = map_of acc k"
  by (simp add: add_resource_def map_of_set_prop)

lemma foldl_add_resource_other:
  "k \<notin> set (map (\<lambda>r. prop_key (obj_get r ''id'')) rs)
   \<Longrightarrow> map_of (foldl add_resource acc rs) k = map_of acc k"
  by (induction rs arbitrary: acc) (auto simp: add_resource_other)

lemma add_resource_kept:
  "map_of acc k = Some v \<Longrightarrow> truthy v \<Longrightarrow> map_of (add_resource acc r) k = Some v"
  by (cases "prop_key (obj_get r ''id'') = k")
     (auto simp: add_resource_def map_of_set_prop obj_get_def)

lemma foldl_add_resource_kept:
  "map_of acc k = Some v \<Longrightarrow> truthy v \<Longrightarrow> map_of (foldl add_resource acc rs) k = Some v"
  by (induction rs arbitrary: acc) (auto simp: add_resource_kept)

lemma add_resource_fresh:
  "map_of acc k = None \<Longrightarrow> k \<notin> set Object_prototype_names
   \<Longrightarrow> prop_key (obj_get r ''id'') = k
   \<Longrightarrow> map_of (add_resource acc r) k
       = Some (JObj (set_prop ''meta'' (JObj [(''action'', JNull), (''error'', JNull)]) r))"
  by (simp add: add_resource_def map_of_set_prop obj_get_def)

text \<open>
  Within one payload the first resource of an identifier decides its entry, for every
  identifier that is not a name inherited from \<^verbatim>\<open>Object.prototype\<close>.
\<close>

lemma first_occurrence_wins:
  assumes "prop_key (obj_get r ''id'') = k"
    and "k \<notin> set (map (\<lambda>r. prop_key (obj_get r ''id'')) pre)"
    and "k \<notin> set Object_prototype_names"
  shows "map_of (foldl add_resource [] (pre @ r # post)) k
       = Some (JObj (set_prop ''meta'' (JObj [(''action'', JNull), (''error'', JNull)]) r))"
proof -
  have "map_of (foldl add_resource [] pre) k = None"
    using assms(2) by (simp add: foldl_add_resource_other)
  then have "map_of (add_resource (foldl add_resource [] pre) r) k
       = Some (JObj (set_prop ''meta'' (JObj [(''action'', JNull), (''error'', JNull)]) r))"
    using assms(1,3) by (simp add: add_resource_fresh)
  then show ?thesis
    by (simp add: foldl_add_resource_kept)
qed

text \<open>
  An identifier that is such a name reads as truthy in every accumulator, and so is
  never given an entry.
\<close>

lemma inherited_never_listed:
  "k \<in> set Object_prototype_names \<Longrightarrow> map_of acc k = None
   \<Longrightarrow> map_of (foldl add_resource acc rs) k = None"
proof (induction rs arbitrary: acc)
  case Nil
  then show ?case by simp
next
  case (Cons r rs)
  have "map_of (add_resource acc r) k = None"
    using Cons.prems
    by (cases "prop_key (obj_get r ''id'') = k")
       (auto simp: add_resource_def map_of_set_prop obj_get_def)
  then show ?case using Cons by simp
qed

lemma obj_get_set_prop: "obj_get (set_prop k v fs) k = v"
  by (simp add: obj_get_def map_of_set_prop)

lemma spread_absent: "map_of fs k = None \<Longrightarrow> spread (obj_get fs k) = []"
  by (simp add: obj_get_def)

lemma set_prop_Nil: "set_prop k v [] = [(k, v)]"
  by (simp add: set_prop_def)

lemma set_prop_Cons:
  "set_prop k v (p # ps) = (if fst p = k then (k, v) # ps else p # set_prop k v ps)"
  by (simp add: set_prop_def)

section \<open>The transition function: list results\<close>

text \<open>
  Claim C1 says that \<open>LIST_RESOURCE_RESOLVED\<close> keeps the entry that the state already
  has for an identifier of the payload. The source starts its \<^verbatim>\<open>reduce\<close> from \<^verbatim>\<open>{}\<close>, not
  from \<^verbatim>\<open>state.list\<close>: on the claim's own example the entry of \<^verbatim>\<open>a\<close> is not the old
  one.
\<close>

theorem list_resolved_overwrites_example:
  "obj_get (list (resourceManagerReducer
       \<lparr>list = [(''a'', JObj [(''v'', JNum 1)])], action = None, error = JNull,
        selected = None\<rparr>
       (LIST_RESOURCE_RESOLVED
          [[(''id'', JStr ''a''), (''v'', JNum 2)], [(''id'', JStr ''b''), (''v'', JNum 3)]])))
     ''a''
   \<noteq> obj_get [(''a'', JObj [(''v'', JNum 1)])] ''a''"
  by (simp add: add_resource_def obj_get_def Object_prototype_names_def set_prop_def)

text \<open>
  Claim C1, amended: for every state and every \<open>LIST_RESOURCE_RESOLVED\<close> event, the
  resulting entries are those built from the payload alone, whatever entries the state
  had; the entry of an identifier is the first resource of the payload that carries it,
  together with \<^verbatim>\<open>meta = {action: null, error: null}\<close>, so an incoming resource replaces an
  existing entry. (Identifiers that are names inherited from \<^verbatim>\<open>Object.prototype\<close> are
  left aside.)
\<close>

theorem list_resolved_rebuilds_from_payload:
  assumes "prop_key (obj_get r ''id'') = k"
    and "k \<notin> set (map (\<lambda>r. prop_key (obj_get r ''id'')) pre)"
    and "k \<notin> set Object_prototype_names"
  shows "list (resourceManagerReducer state (LIST_RESOURCE_RESOLVED (pre @ r # post)))
           = list (resourceManagerReducer EMPTY_RESOURCE_MANAGER
                     (LIST_RESOURCE_RESOLVED (pre @ r # post)))
       \<and> map_of (list (resourceManagerReducer state (LIST_RESOURCE_RESOLVED (pre @ r # post)))) k
           = Some (JObj (set_prop ''meta'' (JObj [(''action'', JNull), (''error'', JNull)]) r))"
  using first_occurrence_wins [OF assms] by simp

text \<open>The amended claim on the example of C1: both entries come from the payload.\<close>

theorem list_resolved_rebuilds_from_payload_witness:
  "list (resourceManagerReducer
       \<lparr>list = [(''a'', JObj [(''v'', JNum 1)])], action = None, error = JNull,
        selected = None\<rparr>
       (LIST_RESOURCE_RESOLVED
          [[(''id'', JStr ''a''), (''v'', JNum 2)], [(''id'', JStr ''b''), (''v'', JNum 3)]]))
   = [(''a'', JObj [(''id'', JStr ''a''), (''v'', JNum 2),
                     (''meta'', JObj [(''action'', JNull), (''error'', JNull)])]),
      (''b'', JObj [(''id'', JStr ''b''), (''v'', JNum 3),
                     (''meta'', JObj [(''action'', JNull), (''error'', JNull)])])]
   \<and> map_of (list (resourceManagerReducer
       \<lparr>list = [(''a'', JObj [(''v'', JNum 1)])], action = None, error = JNull,
        selected = None\<rparr>
       (LIST_RESOURCE_RESOLVED
          [[(''id'', JStr ''a''), (''v'', JNum 2)], [(''id'', JStr ''b''), (''v'', JNum 3)]])))
       ''a''
     = Some (JObj [(''id'', JStr ''a''), (''v'', JNum 2),
                   (''meta'', JObj [(''action'', JNull), (''error'', JNull)])])"
  using list_resolved_rebuilds_from_payload
    [of "[(''id'', JStr ''a''), (''v'', JNum 2)]" "''a''" "[]"
      "\<lparr>list = [(''a'', JObj [(''v'', JNum 1)])], action = None, error = JNull,
        selected = None\<rparr>"
      "[[(''id'', JStr ''b''), (''v'', JNum 3)]]"]
  by (simp add: add_resource_def obj_get_def Object_prototype_names_def set_prop_def
        EMPTY_RESOURCE_MANAGER_def)

text \<open>
  Claim C2 says that an entry whose identifier is not in the payload survives
  \<open>LIST_RESOURCE_RESOLVED\<close>. Here the state has an entry for \<^verbatim>\<open>a\<close>, the payload lists
  only \<^verbatim>\<open>b\<close>, and the entry of \<^verbatim>\<open>a\<close> is gone.
\<close>

theorem list_resolved_drops_example:
  "map_of (list \<lparr>list = [(''a'', JObj [(''id'', JStr ''a''), (''v'', JNum 1)])],
        action = None, error = JNull, selected = None\<rparr>) ''a'' \<noteq> None
   \<and> ''a'' \<notin> set (map (\<lambda>r. prop_key (obj_get r ''id''))
                   [[(''id'', JStr ''b''), (''v'', JNum 3)]])
   \<and> map_of (list (resourceManagerReducer
       \<lparr>list = [(''a'', JObj [(''id'', JStr ''a''), (''v'', JNum 1)])],
        action = None, error = JNull, selected = None\<rparr>
       (LIST_RESOURCE_RESOLVED [[(''id'', JStr ''b''), (''v'', JNum 3)]]))) ''a'' = None"
  by (simp add: add_resource_def obj_get_def Object_prototype_names_def set_prop_def)

text \<open>
  Claim C2, amended: for every state and every \<open>LIST_RESOURCE_RESOLVED\<close> event, an
  identifier that does not appear in the payload has no entry in the resulting entries;
  the rebuild replaces the entries, and those absent from the incoming list are dropped.
\<close>

theorem list_resolved_drops_absent:
  "k \<notin> set (map (\<lambda>r. prop_key (obj_get r ''id'')) payload)
   \<Longrightarrow> map_of (list (resourceManagerReducer state (LIST_RESOURCE_RESOLVED payload))) k = None"
  by (simp add: foldl_add_resource_other)

theorem list_resolved_drops_absent_witness:
  "''a'' \<notin> set (map (\<lambda>r. prop_key (obj_get r ''id''))
                 [[(''id'', JStr ''b''), (''v'', JNum 3)]])
   \<and> map_of (list (resourceManagerReducer
       \<lparr>list = [(''a'', JObj [(''id'', JStr ''a''), (''v'', JNum 1)])],
        action = None, error = JNull, selected = None\<rparr>
       (LIST_RESOURCE_RESOLVED [[(''id'', JStr ''b''), (''v'', JNum 3)]]))) ''a'' = None"
proof -
  have h: "''a'' \<notin> set (map (\<lambda>r. prop_key (obj_get r ''id''))
                        [[(''id'', JStr ''b''), (''v'', JNum 3)]])"
    by (simp add: obj_get_def)
  show ?thesis
    using h list_resolved_drops_absent [OF h] by blast
qed

text \<open>
  Claim C9 says that a payload with two resources of one identifier, applied to the empty
  state, leaves exactly one entry for it, with the data of the first. The callback tests
  \<^verbatim>\<open>acc[resource.id]\<close> for truthiness, and for an identifier such as \<^verbatim>\<open>constructor\<close> the
  empty accumulator already answers with what it inherits: no entry is ever made. For
  every other identifier the first occurrence wins (\<open>first_occurrence_wins\<close>).
\<close>

theorem list_resolved_inherited_name_example:
  "list (resourceManagerReducer EMPTY_RESOURCE_MANAGER
     (LIST_RESOURCE_RESOLVED
        [[(''id'', JStr ''constructor''), (''v'', JNum 1)],
         [(''id'', JStr ''constructor''), (''v'', JNum 2)]])) = []"
  by (simp add: EMPTY_RESOURCE_MANAGER_def add_resource_def obj_get_def
        Object_prototype_names_def)

theorem list_resolved_inherited_name_example_witness:
  "map_of (list (resourceManagerReducer EMPTY_RESOURCE_MANAGER
     (LIST_RESOURCE_RESOLVED
        [[(''id'', JStr ''constructor''), (''v'', JNum 1)],
         [(''id'', JStr ''constructor''), (''v'', JNum 2)]]))) ''constructor'' = None"
  using list_resolved_inherited_name_example by simp

section \<open>The transition function: single resources\<close>

text \<open>
  Claim C3 says, in its last part, that a scoped rejection leaves an identifier without
  an entry if it had none. The source writes \<^verbatim>\<open>[id]: {...state.list[id], meta}\<close> in every
  case: on the empty state the rejection creates an entry that holds the meta field alone.
\<close>

theorem rejected_creates_entry_example:
  "map_of (list EMPTY_RESOURCE_MANAGER) ''1'' = None
   \<and> map_of (list (resourceManagerReducer EMPTY_RESOURCE_MANAGER
         (GET_RESOURCE_REJECTED \<lparr>ae_id = ''1'', ae_message = JStr ''boom''\<rparr>))) ''1''
       = Some (JObj [(''meta'', JObj [(''action'', JNull), (''error'', JStr ''boom'')])])"
  by (simp add: EMPTY_RESOURCE_MANAGER_def obj_get_def Object_prototype_names_def set_prop_def)

text \<open>
  Claim C3, amended: for every state and every \<open>GET_RESOURCE_REJECTED\<close>,
  \<open>UPDATE_RESOURCE_REJECTED\<close> or \<open>REMOVE_RESOURCE_REJECTED\<close> event with payload
  \<^verbatim>\<open>{id, message}\<close>, the resulting global error is the message, the global action is
  null, and the entry of the id has \<^verbatim>\<open>meta = {action: null, error: message}\<close>; if the id
  had no entry before the event, it has one afterwards, made of the meta field alone.
\<close>

theorem rejected_records_error:
  assumes "ev \<in> {GET_RESOURCE_REJECTED p, UPDATE_RESOURCE_REJECTED p,
                  REMOVE_RESOURCE_REJECTED p}"
  shows "error (resourceManagerReducer state ev) = ae_message p
       \<and> action (resourceManagerReducer state ev) = None
       \<and> (\<exists>e. map_of (list (resourceManagerReducer state ev)) (ae_id p) = Some (JObj e)
              \<and> obj_get e ''meta''
                  = JObj [(''action'', JNull), (''error'', ae_message p)])
       \<and> (map_of (list state) (ae_id p) = None \<longrightarrow>
            map_of (list (resourceManagerReducer state ev)) (ae_id p)
              = Some (JObj [(''meta'',
                   JObj [(''action'', JNull), (''error'', ae_message p)])]))"
  using assms
  by (auto simp: map_of_set_prop obj_get_set_prop spread_absent set_prop_Nil)

text \<open>
  The scenario of the specification: \<open>GET_RESOURCE_STARTED\<close> for \<^verbatim>\<open>"1"\<close> on the empty
  state, then the rejection with \<^verbatim>\<open>"boom"\<close>.
\<close>

theorem rejected_records_error_witness:
  "error (resourceManagerReducer
       (resourceManagerReducer EMPTY_RESOURCE_MANAGER (GET_RESOURCE_STARTED ''1''))
       (GET_RESOURCE_REJECTED \<lparr>ae_id = ''1'', ae_message = JStr ''boom''\<rparr>)) = JStr ''boom''
   \<and> action (resourceManagerReducer
       (resourceManagerReducer EMPTY_RESOURCE_MANAGER (GET_RESOURCE_STARTED ''1''))
       (GET_RESOURCE_REJECTED \<lparr>ae_id = ''1'', ae_message = JStr ''boom''\<rparr>)) = None
   \<and> map_of (list (resourceManagerReducer
       (resourceManagerReducer EMPTY_RESOURCE_MANAGER (GET_RESOURCE_STARTED ''1''))
       (GET_RESOURCE_REJECTED \<lparr>ae_id = ''1'', ae_message = JStr ''boom''\<rparr>))) ''1''
     = Some (JObj [(''id'', JStr ''1''),
                   (''meta'', JObj [(''action'', JNull), (''error'', JStr ''boom'')])])"
  using rejected_records_error
    [of "GET_RESOURCE_REJECTED \<lparr>ae_id = ''1'', ae_message = JStr ''boom''\<rparr>"
        "\<lparr>ae_id = ''1'', ae_message = JStr ''boom''\<rparr>"
        "resourceManagerReducer EMPTY_RESOURCE_MANAGER (GET_RESOURCE_STARTED ''1'')"]
  by (simp add: EMPTY_RESOURCE_MANAGER_def obj_get_def Object_prototype_names_def set_prop_def)

text \<open>
  Claim C5 says that after \<open>REMOVE_RESOURCE_RESOLVED\<close> the selection is null if and only
  if it was the removed id. A selection that was null already stays null, whatever the id.
\<close>

theorem remove_resolved_null_selection_example:
  "selected (resourceManagerReducer EMPTY_RESOURCE_MANAGER (REMOVE_RESOURCE_RESOLVED ''1''))
     = None
   \<and> selected EMPTY_RESOURCE_MANAGER \<noteq> Some ''1''"
  by (simp add: EMPTY_RESOURCE_MANAGER_def)

text \<open>
  Claim C5, amended: for every state and every \<open>REMOVE_RESOURCE_RESOLVED\<close> event for an
  id, the resulting entries have no key id, the resulting selection is null if and only
  if the previous selection was the id or was null already, and a selection other than
  the id is left unchanged.
\<close>

theorem remove_resolved_entries_and_selection:
  "map_of (list (resourceManagerReducer state (REMOVE_RESOURCE_RESOLVED i))) i = None
   \<and> i \<notin> fst ` set (list (resourceManagerReducer state (REMOVE_RESOURCE_RESOLVED i)))
   \<and> (selected (resourceManagerReducer state (REMOVE_RESOURCE_RESOLVED i)) = None
        \<longleftrightarrow> selected state = Some i \<or> selected state = None)
   \<and> (selected state \<noteq> Some i \<longrightarrow>
        selected (resourceManagerReducer state (REMOVE_RESOURCE_RESOLVED i)) = selected state)"
  by (simp add: delete_conv' delete_notin_dom)

text \<open>
  The scenario of the specification (select \<^verbatim>\<open>"9"\<close>, then its removal starts and
  resolves), and a selection of another id, which the removal keeps.
\<close>

theorem remove_resolved_entries_and_selection_witness:
  "selected (resourceManagerReducer
       (resourceManagerReducer
          (resourceManagerReducer EMPTY_RESOURCE_MANAGER (SELECT_RESOURCE ''9''))
          (REMOVE_RESOURCE_STARTED ''9''))
       (REMOVE_RESOURCE_RESOLVED ''9'')) = None
   \<and> list (resourceManagerReducer
       (resourceManagerReducer
          (resourceManagerReducer EMPTY_RESOURCE_MANAGER (SELECT_RESOURCE ''9''))
          (REMOVE_RESOURCE_STARTED ''9''))
       (REMOVE_RESOURCE_RESOLVED ''9'')) = []
   \<and> selected (resourceManagerReducer
       (resourceManagerReducer EMPTY_RESOURCE_MANAGER (SELECT_RESOURCE ''7''))
       (REMOVE_RESOURCE_RESOLVED ''9'')) = Some ''7''"
  using remove_resolved_entries_and_selection
    [of "resourceManagerReducer
          (resourceManagerReducer EMPTY_RESOURCE_MANAGER (SELECT_RESOURCE ''9''))
          (REMOVE_RESOURCE_STARTED ''9'')" "''9''"]
    remove_resolved_entries_and_selection
    [of "resourceManagerReducer EMPTY_RESOURCE_MANAGER (SELECT_RESOURCE ''7'')" "''9''"]
  by (simp add: EMPTY_RESOURCE_MANAGER_def set_prop_def)

text \<open>
  Claim C6: for every state and every \<open>GET_RESOURCE_RESOLVED\<close>,
  \<open>UPDATE_RESOURCE_RESOLVED\<close> or \<open>CREATE_RESOURCE_RESOLVED\<close> event with a resource as
  payload, the global action and error become null, and the entry under the resource's id
  becomes the resource itself with \<^verbatim>\<open>meta = {action: null, error: null}\<close>: every field other
  than \<^verbatim>\<open>meta\<close> is the payload's, and nothing of the previous entry remains.
\<close>

theorem resolved_replaces_entry:
  assumes "ev \<in> {GET_RESOURCE_RESOLVED r, UPDATE_RESOURCE_RESOLVED r,
                  CREATE_RESOURCE_RESOLVED r}"
  shows "action (resourceManagerReducer state ev) = None
       \<and> error (resourceManagerReducer state ev) = JNull
       \<and> map_of (list (resourceManagerReducer state ev)) (prop_key (obj_get r ''id''))
           = Some (JObj (set_prop ''meta'' (JObj [(''action'', JNull), (''error'', JNull)]) r))
       \<and> map_of (set_prop ''meta'' (JObj [(''action'', JNull), (''error'', JNull)]) r)
           = (map_of r)(''meta'' \<mapsto> JObj [(''action'', JNull), (''error'', JNull)])"
  using assms by (auto simp: map_of_set_prop)

text \<open>
  An update that resolves with \<^verbatim>\<open>{id: "x", v: 2}\<close> over an entry \<^verbatim>\<open>{id: "x", old: 1, meta}\<close>
  that is being updated: the field \<^verbatim>\<open>old\<close> is gone.
\<close>

theorem resolved_replaces_entry_witness:
  "map_of (list (resourceManagerReducer
       \<lparr>list = [(''x'', JObj [(''id'', JStr ''x''), (''old'', JNum 1),
                   (''meta'', JObj [(''action'', JStr ''update''), (''error'', JNull)])])],
        action = Some A_update, error = JNull, selected = None\<rparr>
       (UPDATE_RESOURCE_RESOLVED [(''id'', JStr ''x''), (''v'', JNum 2)]))) ''x''
     = Some (JObj [(''id'', JStr ''x''), (''v'', JNum 2),
                   (''meta'', JObj [(''action'', JNull), (''error'', JNull)])])
   \<and> action (resourceManagerReducer
       \<lparr>list = [(''x'', JObj [(''id'', JStr ''x''), (''old'', JNum 1),
                   (''meta'', JObj [(''action'', JStr ''update''), (''error'', JNull)])])],
        action = Some A_update, error = JNull, selected = None\<rparr>
       (UPDATE_RESOURCE_RESOLVED [(''id'', JStr ''x''), (''v'', JNum 2)])) = None"
  using resolved_replaces_entry
    [of "UPDATE_RESOURCE_RESOLVED [(''id'', JStr ''x''), (''v'', JNum 2)]"
        "[(''id'', JStr ''x''), (''v'', JNum 2)]"
        "\<lparr>list = [(''x'', JObj [(''id'', JStr ''x''), (''old'', JNum 1),
                   (''meta'', JObj [(''action'', JStr ''update''), (''error'', JNull)])])],
        action = Some A_update, error = JNull, selected = None\<rparr>"]
  by (simp add: obj_get_def set_prop_def)

text \<open>
  Claim C10: for every state with no entry for an id, \<open>UPDATE_RESOURCE_STARTED\<close> and
  \<open>REMOVE_RESOURCE_STARTED\<close> create an entry that holds the meta field alone, with the
  action \<^verbatim>\<open>update\<close> or \<^verbatim>\<open>remove\<close> and a null error, and no id or payload field;
  \<open>GET_RESOURCE_STARTED\<close> on the same state creates an entry that carries the field
  \<^verbatim>\<open>id\<close> as well.
\<close>

theorem started_creates_entry:
  assumes "map_of (list state) i = None"
  shows "map_of (list (resourceManagerReducer state (UPDATE_RESOURCE_STARTED i))) i
           = Some (JObj [(''meta'', JObj [(''action'', JStr ''update''), (''error'', JNull)])])
       \<and> map_of (list (resourceManagerReducer state (REMOVE_RESOURCE_STARTED i))) i
           = Some (JObj [(''meta'', JObj [(''action'', JStr ''remove''), (''error'', JNull)])])
       \<and> map_of (list (resourceManagerReducer state (GET_RESOURCE_STARTED i))) i
           = Some (JObj [(''id'', JStr i),
                         (''meta'', JObj [(''action'', JStr ''get''), (''error'', JNull)])])"
  using assms by (simp add: map_of_set_prop spread_absent set_prop_Nil set_prop_Cons)

theorem started_creates_entry_witness:
  "map_of (list EMPTY_RESOURCE_MANAGER) ''5'' = None
   \<and> list (resourceManagerReducer EMPTY_RESOURCE_MANAGER (UPDATE_RESOURCE_STARTED ''5''))
       = [(''5'', JObj [(''meta'', JObj [(''action'', JStr ''update''), (''error'', JNull)])])]
   \<and> list (resourceManagerReducer EMPTY_RESOURCE_MANAGER (REMOVE_RESOURCE_STARTED ''5''))
       = [(''5'', JObj [(''meta'', JObj [(''action'', JStr ''remove''), (''error'', JNull)])])]
   \<and> list (resourceManagerReducer EMPTY_RESOURCE_MANAGER (GET_RESOURCE_STARTED ''5''))
       = [(''5'', JObj [(''id'', JStr ''5''),
                        (''meta'', JObj [(''action'', JStr ''get''), (''error'', JNull)])])]"
proof -
  have h: "map_of (list EMPTY_RESOURCE_MANAGER) ''5'' = None"
    by (simp add: EMPTY_RESOURCE_MANAGER_def)
  show ?thesis
    using h started_creates_entry [OF h]
    by (simp add: EMPTY_RESOURCE_MANAGER_def obj_get_def Object_prototype_names_def
          set_prop_def)
qed

section \<open>The read projection of a dangling selection\<close>

text \<open>
  Claim C4 says that the projection gives \<^verbatim>\<open>null\<close> for a selected id that has no entry.
  After \<^verbatim>\<open>select("9")\<close> on the empty state the selection is \<^verbatim>\<open>"9"\<close>, there is no entry
  for it, and \<^verbatim>\<open>state.list[state.selected]\<close> is \<^verbatim>\<open>undefined\<close>: the projection's field is
  \<^verbatim>\<open>undefined\<close>, a value outside the declared \<^verbatim>\<open>null | (T & Meta)\<close>.
\<close>

theorem dangling_selection_is_undefined:
  "selected (resourceManagerReducer EMPTY_RESOURCE_MANAGER (SELECT_RESOURCE ''9''))
     = Some ''9''
   \<and> map_of (list (resourceManagerReducer EMPTY_RESOURCE_MANAGER (SELECT_RESOURCE ''9'')))
        ''9'' = None
   \<and> selected_out (manager
        (resourceManagerReducer EMPTY_RESOURCE_MANAGER (SELECT_RESOURCE ''9''))) = JUndefined"
  by (simp add: EMPTY_RESOURCE_MANAGER_def manager_def obj_get_def Object_prototype_names_def)

theorem dangling_selection_is_undefined_witness:
  "selected_out (manager
     (resourceManagerReducer EMPTY_RESOURCE_MANAGER (SELECT_RESOURCE ''9''))) \<noteq> JNull"
  using dangling_selection_is_undefined by simp

section \<open>The orchestrator: order of events and failures\<close>

lemma trace_dispatch: "trace (dispatch a w) = trace w @ [Dispatched a]"
  by (simp add: dispatch_def)

lemma store_dispatch: "store (dispatch a w) = resourceManagerReducer (store w) a"
  by (simp add: dispatch_def)

lemma trace_foldl_dispatch:
  "trace (foldl (\<lambda>w a. dispatch a w) w evs) = trace w @ map Dispatched evs"
  by (induction evs arbitrary: w) (simp_all add: trace_dispatch)

text \<open>The message of a reason can be read unless the reason is null or undefined.\<close>

lemma message_of_Return_iff:
  "(\<exists>m. message_of e = Return m) \<longleftrightarrow> e \<noteq> JUndefined \<and> e \<noteq> JNull"
  by (cases e) simp_all

text \<open>
  The history of one invocation, verb by verb: what the synchronous call appends, and
  what the whole invocation appends when the future is fulfilled and when it is rejected
  with a reason whose message can be read.
\<close>

lemma handleGet_started: "trace (snd (handleGet i fut w)) = trace w @ [Dispatched (GET_RESOURCE_STARTED i)]"
  by (simp add: handleGet_def Let_def trace_dispatch)

lemma handleGet_fulfilled:
  "trace (snd (invocation (handleGet i) (Settled t (Fulfilled r)) evs w))
       = trace w @ (if t = BeforeCall then [FutureSettled] else [])
           @ [Dispatched (GET_RESOURCE_STARTED i)] @ map Dispatched evs
           @ (if t = AfterCall then [FutureSettled] else [])
           @ [Dispatched (GET_RESOURCE_RESOLVED r)]"
  by (cases t) (simp_all add: handleGet_def invocation_def then_p_def catch_p_def Let_def
        trace_dispatch trace_foldl_dispatch)

lemma handleGet_rejected:
  "message_of e = Return m \<Longrightarrow>
     trace (snd (invocation (handleGet i) (Settled t (Rejected e)) evs w))
       = trace w @ (if t = BeforeCall then [FutureSettled] else [])
           @ [Dispatched (GET_RESOURCE_STARTED i)] @ map Dispatched evs
           @ (if t = AfterCall then [FutureSettled] else [])
           @ [Dispatched (GET_RESOURCE_REJECTED \<lparr>ae_id = i, ae_message = m\<rparr>)]"
  by (cases t) (simp_all add: handleGet_def invocation_def then_p_def catch_p_def Let_def
        trace_dispatch trace_foldl_dispatch)

lemma handleList_started: "trace (snd (handleList futl w)) = trace w @ [Dispatched (LIST_RESOURCE_STARTED)]"
  by (simp add: handleList_def Let_def trace_dispatch)

lemma handleList_fulfilled:
  "trace (snd (invocation handleList (Settled t (Fulfilled l)) evs w))
       = trace w @ (if t = BeforeCall then [FutureSettled] else [])
           @ [Dispatched (LIST_RESOURCE_STARTED)] @ map Dispatched evs
           @ (if t = AfterCall then [FutureSettled] else [])
           @ [Dispatched (LIST_RESOURCE_RESOLVED l)]"
  by (cases t) (simp_all add: handleList_def invocation_def then_p_def catch_p_def Let_def
        trace_dispatch trace_foldl_dispatch)

lemma handleList_rejected:
  "message_of e = Return m \<Longrightarrow>
     trace (snd (invocation handleList (Settled t (Rejected e)) evs w))
       = trace w @ (if t = BeforeCall then [FutureSettled] else [])
           @ [Dispatched (LIST_RESOURCE_STARTED)] @ map Dispatched evs
           @ (if t = AfterCall then [FutureSettled] else [])
           @ [Dispatched (LIST_RESOURCE_REJECTED m)]"
  by (cases t) (simp_all add: handleList_def invocation_def then_p_def catch_p_def Let_def
        trace_dispatch trace_foldl_dispatch)

lemma handleUpdate_started: "trace (snd (handleUpdate i fut w)) = trace w @ [Dispatched (UPDATE_RESOURCE_STARTED i)]"
  by (simp add: handleUpdate_def Let_def trace_dispatch)

lemma handleUpdate_fulfilled:
  "trace (snd (invocation (handleUpdate i) (Settled t (Fulfilled r)) evs w))
       = trace w @ (if t = BeforeCall then [FutureSettled] else [])
           @ [Dispatched (UPDATE_RESOURCE_STARTED i)] @ map Dispatched evs
           @ (if t = AfterCall then [FutureSettled] else [])
           @ [Dispatched (UPDATE_RESOURCE_RESOLVED r)]"
  by (cases t) (simp_all add: handleUpdate_def invocation_def then_p_def catch_p_def Let_def
        trace_dispatch trace_foldl_dispatch)

lemma handleUpdate_rejected:
  "message_of e = Return m \<Longrightarrow>
     trace (snd (invocation (handleUpdate i) (Settled t (Rejected e)) evs w))
       = trace w @ (if t = BeforeCall then [FutureSettled] else [])
           @ [Dispatched (UPDATE_RESOURCE_STARTED i)] @ map Dispatched evs
           @ (if t = AfterCall then [FutureSettled] else [])
           @ [Dispatched (UPDATE_RESOURCE_REJECTED \<lparr>ae_id = i, ae_message = m\<rparr>)]"
  by (cases t) (simp_all add: handleUpdate_def invocation_def then_p_def catch_p_def Let_def
        trace_dispatch trace_foldl_dispatch)

lemma handleCreate_started: "trace (snd (handleCreate fut w)) = trace w @ [Dispatched (CREATE_RESOURCE_STARTED)]"
  by (simp add: handleCreate_def Let_def trace_dispatch)

lemma handleCreate_fulfilled:
  "trace (snd (invocation handleCreate (Settled t (Fulfilled r)) evs w))
       = trace w @ (if t = BeforeCall then [FutureSettled] else [])
           @ [Dispatched (CREATE_RESOURCE_STARTED)] @ map Dispatched evs
           @ (if t = AfterCall then [FutureSettled] else [])
           @ [Dispatched (CREATE_RESOURCE_RESOLVED r)]"
  by (cases t) (simp_all add: handleCreate_def invocation_def then_p_def catch_p_def Let_def
        trace_dispatch trace_foldl_dispatch)

lemma handleCreate_rejected:
  "message_of e = Return m \<Longrightarrow>
     trace (snd (invocation handleCreate (Settled t (Rejected e)) evs w))
       = trace w @ (if t = BeforeCall then [FutureSettled] else [])
           @ [Dispatched (CREATE_RESOURCE_STARTED)] @ map Dispatched evs
           @ (if t = AfterCall then [FutureSettled] else [])
           @ [Dispatched (CREATE_RESOURCE_REJECTED m)]"
  by (cases t) (simp_all add: handleCreate_def invocation_def then_p_def catch_p_def Let_def
        trace_dispatch trace_foldl_dispatch)

lemma handleRemove_started: "trace (snd (handleRemove i fut w)) = trace w @ [Dispatched (REMOVE_RESOURCE_STARTED i)]"
  by (simp add: handleRemove_def Let_def trace_dispatch)

lemma handleRemove_fulfilled:
  "trace (snd (invocation (handleRemove i) (Settled t (Fulfilled r)) evs w))
       = trace w @ (if t = BeforeCall then [FutureSettled] else [])
           @ [Dispatched (REMOVE_RESOURCE_STARTED i)] @ map Dispatched evs
           @ (if t = AfterCall then [FutureSettled] else [])
           @ [Dispatched (REMOVE_RESOURCE_RESOLVED i)]"
  by (cases t) (simp_all add: handleRemove_def invocation_def then_p_def catch_p_def Let_def
        trace_dispatch trace_foldl_dispatch)

lemma handleRemove_rejected:
  "message_of e = Return m \<Longrightarrow>
     trace (snd (invocation (handleRemove i) (Settled t (Rejected e)) evs w))
       = trace w @ (if t = BeforeCall then [FutureSettled] else [])
           @ [Dispatched (REMOVE_RESOURCE_STARTED i)] @ map Dispatched evs
           @ (if t = AfterCall then [FutureSettled] else [])
           @ [Dispatched (REMOVE_RESOURCE_REJECTED \<lparr>ae_id = i, ae_message = m\<rparr>)]"
  by (cases t) (simp_all add: handleRemove_def invocation_def then_p_def catch_p_def Let_def
        trace_dispatch trace_foldl_dispatch)

text \<open>
  A future that never settles leaves the invocation with its started event alone, and so
  does a future that is rejected with \<^verbatim>\<open>null\<close> or \<^verbatim>\<open>undefined\<close>: the handler throws
  before it dispatches.
\<close>

lemma pending_invocation_trace:
  "trace (snd (invocation (handleGet i) Never evs w))
       = trace w @ [Dispatched (GET_RESOURCE_STARTED i)] @ map Dispatched evs"
  "trace (snd (invocation handleList Never evs w))
       = trace w @ [Dispatched (LIST_RESOURCE_STARTED)] @ map Dispatched evs"
  "trace (snd (invocation (handleUpdate i) Never evs w))
       = trace w @ [Dispatched (UPDATE_RESOURCE_STARTED i)] @ map Dispatched evs"
  "trace (snd (invocation handleCreate Never evs w))
       = trace w @ [Dispatched (CREATE_RESOURCE_STARTED)] @ map Dispatched evs"
  "trace (snd (invocation (handleRemove i) Never evs w))
       = trace w @ [Dispatched (REMOVE_RESOURCE_STARTED i)] @ map Dispatched evs"
  by (simp_all add: handleGet_def handleList_def handleUpdate_def handleCreate_def
        handleRemove_def invocation_def then_p_def catch_p_def Let_def
        trace_dispatch trace_foldl_dispatch)

lemma unreadable_reason_trace:
  assumes "message_of e = Throw x"
  shows "trace (snd (invocation (handleGet i) (Settled t (Rejected e)) evs w))
       = trace w @ (if t = BeforeCall then [FutureSettled] else [])
           @ [Dispatched (GET_RESOURCE_STARTED i)] @ map Dispatched evs
           @ (if t = AfterCall then [FutureSettled] else [])"
    and "trace (snd (invocation handleList (Settled t (Rejected e)) evs w))
       = trace w @ (if t = BeforeCall then [FutureSettled] else [])
           @ [Dispatched (LIST_RESOURCE_STARTED)] @ map Dispatched evs
           @ (if t = AfterCall then [FutureSettled] else [])"
    and "trace (snd (invocation (handleUpdate i) (Settled t (Rejected e)) evs w))
       = trace w @ (if t = BeforeCall then [FutureSettled] else [])
           @ [Dispatched (UPDATE_RESOURCE_STARTED i)] @ map Dispatched evs
           @ (if t = AfterCall then [FutureSettled] else [])"
    and "trace (snd (invocation handleCreate (Settled t (Rejected e)) evs w))
       = trace w @ (if t = BeforeCall then [FutureSettled] else [])
           @ [Dispatched (CREATE_RESOURCE_STARTED)] @ map Dispatched evs
           @ (if t = AfterCall then [FutureSettled] else [])"
    and "trace (snd (invocation (handleRemove i) (Settled t (Rejected e)) evs w))
       = trace w @ (if t = BeforeCall then [FutureSettled] else [])
           @ [Dispatched (REMOVE_RESOURCE_STARTED i)] @ map Dispatched evs
           @ (if t = AfterCall then [FutureSettled] else [])"
  using assms
  by (cases t;
      simp add: handleGet_def handleList_def handleUpdate_def handleCreate_def
        handleRemove_def invocation_def then_p_def catch_p_def Let_def
        trace_dispatch trace_foldl_dispatch)+

text \<open>
  Claim C8 says that every invocation of an asynchronous verb dispatches its started
  event first and exactly one resolved or rejected event after the future settles, never
  zero. An update whose future is rejected with \<^verbatim>\<open>undefined\<close> dispatches its started
  event only: the handler throws a \<^verbatim>\<open>TypeError\<close> at \<^verbatim>\<open>error.message\<close>, the returned promise
  is rejected with it, and the state keeps the pending action.
\<close>

theorem rejected_without_reason_example:
  "trace (snd (invocation (handleUpdate ''5'') (Settled AfterCall (Rejected JUndefined)) []
          \<lparr>store = EMPTY_RESOURCE_MANAGER, trace = []\<rparr>))
     = [Dispatched (UPDATE_RESOURCE_STARTED ''5''), FutureSettled]
   \<and> fst (invocation (handleUpdate ''5'') (Settled AfterCall (Rejected JUndefined)) []
          \<lparr>store = EMPTY_RESOURCE_MANAGER, trace = []\<rparr>)
     = Some (Rejected TypeError)
   \<and> action (store (snd (invocation (handleUpdate ''5'')
          (Settled AfterCall (Rejected JUndefined)) []
          \<lparr>store = EMPTY_RESOURCE_MANAGER, trace = []\<rparr>)))
     = Some A_update"
  by (simp add: handleUpdate_def invocation_def then_p_def catch_p_def Let_def
        dispatch_def EMPTY_RESOURCE_MANAGER_def)

text \<open>
  Claim C8, amended: for every invocation of each asynchronous verb (get, list, update,
  create, remove), the started event is dispatched in the synchronous call, before
  anything of the supplied future is observed; and when the future is fulfilled, or is
  rejected with a reason other than \<^verbatim>\<open>null\<close> and \<^verbatim>\<open>undefined\<close>, exactly one resolved or
  rejected event is dispatched, after the started event and after the settlement of the
  future, whether the future settled before the call or after it. The events \<open>evs\<close> are
  those that other callers dispatch in between; \<open>m\<close> is the message read from the reason.
\<close>

theorem started_then_settled_once:
  assumes "message_of e = Return m"
  shows "trace (snd (handleGet i fut w)) = trace w @ [Dispatched (GET_RESOURCE_STARTED i)]
   \<and> trace (snd (invocation (handleGet i) (Settled t (Fulfilled r)) evs w))
       = trace w @ (if t = BeforeCall then [FutureSettled] else [])
           @ [Dispatched (GET_RESOURCE_STARTED i)] @ map Dispatched evs
           @ (if t = AfterCall then [FutureSettled] else [])
           @ [Dispatched (GET_RESOURCE_RESOLVED r)]
   \<and> trace (snd (invocation (handleGet i) (Settled t (Rejected e)) evs w))
       = trace w @ (if t = BeforeCall then [FutureSettled] else [])
           @ [Dispatched (GET_RESOURCE_STARTED i)] @ map Dispatched evs
           @ (if t = AfterCall then [FutureSettled] else [])
           @ [Dispatched (GET_RESOURCE_REJECTED \<lparr>ae_id = i, ae_message = m\<rparr>)]
   \<and> trace (snd (handleList futl w)) = trace w @ [Dispatched (LIST_RESOURCE_STARTED)]
   \<and> trace (snd (invocation handleList (Settled t (Fulfilled l)) evs w))
       = trace w @ (if t = BeforeCall then [FutureSettled] else [])
           @ [Dispatched (LIST_RESOURCE_STARTED)] @ map Dispatched evs
           @ (if t = AfterCall then [FutureSettled] else [])
           @ [Dispatched (LIST_RESOURCE_RESOLVED l)]
   \<and> trace (snd (invocation handleList (Settled t (Rejected e)) evs w))
       = trace w @ (if t = BeforeCall then [FutureSettled] else [])
           @ [Dispatched (LIST_RESOURCE_STARTED)] @ map Dispatched evs
           @ (if t = AfterCall then [FutureSettled] else [])
           @ [Dispatched (LIST_RESOURCE_REJECTED m)]
   \<and> trace (snd (handleUpdate i fut w)) = trace w @ [Dispatched (UPDATE_RESOURCE_STARTED i)]
   \<and> trace (snd (invocation (handleUpdate i) (Settled t (Fulfilled r)) evs w))
       = trace w @ (if t = BeforeCall then [FutureSettled] else [])
           @ [Dispatched (UPDATE_RESOURCE_STARTED i)] @ map Dispatched evs
           @ (if t = AfterCall then [FutureSettled] else [])
           @ [Dispatched (UPDATE_RESOURCE_RESOLVED r)]
   \<and> trace (snd (invocation (handleUpdate i) (Settled t (Rejected e)) evs w))
       = trace w @ (if t = BeforeCall then [FutureSettled] else [])
           @ [Dispatched (UPDATE_RESOURCE_STARTED i)] @ map Dispatched evs
           @ (if t = AfterCall then [FutureSettled] else [])
           @ [Dispatched (UPDATE_RESOURCE_REJECTED \<lparr>ae_id = i, ae_message = m\<rparr>)]
   \<and> trace (snd (handleCreate fut w)) = trace w @ [Dispatched (CREATE_RESOURCE_STARTED)]
   \<and> trace (snd (invocation handleCreate (Settled t (Fulfilled r)) evs w))
       = trace w @ (if t = BeforeCall then [FutureSettled] else [])
           @ [Dispatched (CREATE_RESOURCE_STARTED)] @ map Dispatched evs
           @ (if t = AfterCall then [FutureSettled] else [])
           @ [Dispatched (CREATE_RESOURCE_RESOLVED r)]
   \<and> trace (snd (invocation handleCreate (Settled t (Rejected e)) evs w))
       = trace w @ (if t = BeforeCall then [FutureSettled] else [])
           @ [Dispatched (CREATE_RESOURCE_STARTED)] @ map Dispatched evs
           @ (if t = AfterCall then [FutureSettled] else [])
           @ [Dispatched (CREATE_RESOURCE_REJECTED m)]
   \<and> trace (snd (handleRemove i fut w)) = trace w @ [Dispatched (REMOVE_RESOURCE_STARTED i)]
   \<and> trace (snd (invocation (handleRemove i) (Settled t (Fulfilled r)) evs w))
       = trace w @ (if t = BeforeCall then [FutureSettled] else [])
           @ [Dispatched (REMOVE_RESOURCE_STARTED i)] @ map Dispatched evs
           @ (if t = AfterCall then [FutureSettled] else [])
           @ [Dispatched (REMOVE_RESOURCE_RESOLVED i)]
   \<and> trace (snd (invocation (handleRemove i) (Settled t (Rejected e)) evs w))
       = trace w @ (if t = BeforeCall then [FutureSettled] else [])
           @ [Dispatched (REMOVE_RESOURCE_STARTED i)] @ map Dispatched evs
           @ (if t = AfterCall then [FutureSettled] else [])
           @ [Dispatched (REMOVE_RESOURCE_REJECTED \<lparr>ae_id = i, ae_message = m\<rparr>)]"
  using assms
  by (simp only: handleGet_started handleGet_fulfilled handleGet_rejected
        handleList_started handleList_fulfilled handleList_rejected
        handleUpdate_started handleUpdate_fulfilled handleUpdate_rejected
        handleCreate_started handleCreate_fulfilled handleCreate_rejected
        handleRemove_started handleRemove_fulfilled handleRemove_rejected simp_thms)

text \<open>
  A get of \<^verbatim>\<open>"1"\<close> whose future had been fulfilled before the call, and an update of
  \<^verbatim>\<open>"5"\<close> whose future is rejected with an \<^verbatim>\<open>Error\<close> after a selection was made in
  between, both from the initial world.
\<close>

theorem started_then_settled_once_witness:
  "message_of (JObj [(''message'', JStr ''conflict'')]) = Return (JStr ''conflict'')
   \<and> trace (snd (invocation (handleGet ''1'')
       (Settled BeforeCall (Fulfilled [(''id'', JStr ''1'')])) []
       \<lparr>store = EMPTY_RESOURCE_MANAGER, trace = []\<rparr>))
     = [FutureSettled, Dispatched (GET_RESOURCE_STARTED ''1''),
        Dispatched (GET_RESOURCE_RESOLVED [(''id'', JStr ''1'')])]
   \<and> trace (snd (invocation (handleUpdate ''5'')
       (Settled AfterCall (Rejected (JObj [(''message'', JStr ''conflict'')])))
       [SELECT_RESOURCE ''5'']
       \<lparr>store = EMPTY_RESOURCE_MANAGER, trace = []\<rparr>))
     = [Dispatched (UPDATE_RESOURCE_STARTED ''5''), Dispatched (SELECT_RESOURCE ''5''),
        FutureSettled,
        Dispatched (UPDATE_RESOURCE_REJECTED
          \<lparr>ae_id = ''5'', ae_message = JStr ''conflict''\<rparr>)]"
proof -
  have h: "message_of (JObj [(''message'', JStr ''conflict'')]) = Return (JStr ''conflict'')"
    by (simp add: obj_get_def)
  show ?thesis
    using h
      started_then_settled_once [OF h, where i = "''1''" and t = BeforeCall
        and r = "[(''id'', JStr ''1'')]" and evs = "[]"
        and w = "\<lparr>store = EMPTY_RESOURCE_MANAGER, trace = []\<rparr>"]
      started_then_settled_once [OF h, where i = "''5''" and t = AfterCall
        and evs = "[SELECT_RESOURCE ''5'']"
        and w = "\<lparr>store = EMPTY_RESOURCE_MANAGER, trace = []\<rparr>"]
    by simp
qed

text \<open>
  A rejected update, get, remove or create whose reason has a message is re-raised as
  that bare message and recorded in the state, whatever was dispatched in between.
\<close>

lemma scoped_rejection_recorded:
  assumes "verb = handleGet i \<or> verb = handleUpdate i" and "message_of e = Return m"
  shows "fst (invocation verb (Settled t (Rejected e)) evs w) = Some (Rejected (Value m))
       \<and> error (store (snd (invocation verb (Settled t (Rejected e)) evs w))) = m
       \<and> (\<exists>fs. map_of (list (store (snd
                 (invocation verb (Settled t (Rejected e)) evs w)))) i = Some (JObj fs)
              \<and> obj_get fs ''meta'' = JObj [(''action'', JNull), (''error'', m)])"
  using assms
  by (cases t)
     (auto simp: handleGet_def handleUpdate_def invocation_def then_p_def
        catch_p_def Let_def store_dispatch map_of_set_prop obj_get_set_prop)

lemma remove_rejection_recorded:
  assumes "message_of e = Return m"
  shows "fst (invocation (handleRemove i) (Settled t (Rejected e)) evs w)
           = Some (Rejected (Value m))
       \<and> error (store (snd (invocation (handleRemove i) (Settled t (Rejected e)) evs w)))
           = m"
  using assms
  by (cases t)
     (simp_all add: handleRemove_def invocation_def then_p_def
        catch_p_def Let_def store_dispatch)

lemma create_rejection_recorded:
  assumes "message_of e = Return m"
  shows "fst (invocation handleCreate (Settled t (Rejected e)) evs w)
           = Some (Rejected (Value m))
       \<and> error (store (snd (invocation handleCreate (Settled t (Rejected e)) evs w))) = m
       \<and> action (store (snd (invocation handleCreate (Settled t (Rejected e)) evs w)))
           = None"
  using assms
  by (cases t)
     (simp_all add: handleCreate_def invocation_def then_p_def
        catch_p_def Let_def store_dispatch)

text \<open>
  Claim C7 says that every asynchronous verb whose future rejects with an error of
  message \<^verbatim>\<open>"conflict"\<close> rejects with that bare string and records the failure in the
  state. The verbs get, update, remove and create do (the three lemmas above; for
  \<^verbatim>\<open>update("5", future)\<close> the entry of \<^verbatim>\<open>"5"\<close> has \<^verbatim>\<open>meta.error = "conflict"\<close>). The verb
  list re-raises the message, but the reducer has no case for the
  \<open>LIST_RESOURCE_REJECTED\<close> it dispatches: the state keeps a null error and the action
  \<^verbatim>\<open>list\<close> of the started event.
\<close>

theorem list_rejection_not_recorded:
  "fst (invocation handleList
          (Settled AfterCall (Rejected (JObj [(''message'', JStr ''conflict'')]))) []
          \<lparr>store = EMPTY_RESOURCE_MANAGER, trace = []\<rparr>)
     = Some (Rejected (Value (JStr ''conflict'')))
   \<and> trace (snd (invocation handleList
          (Settled AfterCall (Rejected (JObj [(''message'', JStr ''conflict'')]))) []
          \<lparr>store = EMPTY_RESOURCE_MANAGER, trace = []\<rparr>))
     = [Dispatched LIST_RESOURCE_STARTED, FutureSettled,
        Dispatched (LIST_RESOURCE_REJECTED (JStr ''conflict''))]
   \<and> store (snd (invocation handleList
          (Settled AfterCall (Rejected (JObj [(''message'', JStr ''conflict'')]))) []
          \<lparr>store = EMPTY_RESOURCE_MANAGER, trace = []\<rparr>))
     = \<lparr>list = [], action = Some A_list, error = JNull, selected = None\<rparr>"
  by (simp add: handleList_def invocation_def then_p_def catch_p_def Let_def
        dispatch_def EMPTY_RESOURCE_MANAGER_def obj_get_def)

theorem list_rejection_not_recorded_witness:
  "error (store (snd (invocation handleList
       (Settled AfterCall (Rejected (JObj [(''message'', JStr ''conflict'')]))) []
       \<lparr>store = EMPTY_RESOURCE_MANAGER, trace = []\<rparr>))) = JNull"
  using list_rejection_not_recorded by simp

end
